theory Spec2Isabelle
  imports Complex_Main
begin

section \<open>Python values and exceptions\<close>

text \<open>
  The scanner (scanner.py), the ranked-symbol source (symbols\_loader.py) and the
  persistence layer (database.py) are Python. Floats are modelled as \<open>real\<close>, strings as
  \<open>string\<close> (ASCII symbols), dictionaries as association lists or maps, and every
  exception the code can raise or catch as a value of \<open>py_error\<close>.
\<close>

datatype py_error =
    KeyError | AttributeError | TypeError | ValueError
  | TransportError | SqliteError

text \<open>A decoded JSON document (\<open>await resp.json()\<close>); an object keeps its members as pairs.\<close>

datatype json =
    JNull | JBool bool | JNum real | JStr string
  | JArr "json list" | JObj "(string \<times> json) list"

text \<open>What one HTTP request gives: a decoded body, or a transport error, timeout or undecodable body.\<close>

datatype http_result = HttpFailed | HttpJson json

text \<open>Values handed to SQLite as statement parameters.\<close>

datatype pyval = PNone | PStr string | PFloat real | PUnsupported

text \<open>Python truthiness, \<open>a or b\<close>, \<open>d.get(k)\<close>, \<open>k in x\<close>, \<open>x[k]\<close> and \<open>float(x)\<close> on JSON values.\<close>

fun truthy :: "json \<Rightarrow> bool" where
  "truthy JNull = False"
| "truthy (JBool b) = b"
| "truthy (JNum r) = (r \<noteq> 0)"
| "truthy (JStr s) = (s \<noteq> [])"
| "truthy (JArr xs) = (xs \<noteq> [])"
| "truthy (JObj kv) = (kv \<noteq> [])"

definition py_or :: "json \<Rightarrow> json \<Rightarrow> json" where
  "py_or a b = (if truthy a then a else b)"

definition dict_get :: "(string \<times> json) list \<Rightarrow> string \<Rightarrow> json" where
  "dict_get kv k = (case map_of kv k of Some v \<Rightarrow> v | None \<Rightarrow> JNull)"

fun json_get :: "json \<Rightarrow> string \<Rightarrow> py_error + json" where
  "json_get (JObj kv) k = Inr (dict_get kv k)"
| "json_get other k = Inl AttributeError"

fun json_index :: "json \<Rightarrow> string \<Rightarrow> py_error + json" where
  "json_index (JObj kv) k = (case map_of kv k of Some v \<Rightarrow> Inr v | None \<Rightarrow> Inl KeyError)"
| "json_index other k = Inl TypeError"

section \<open>Configuration (config.py)\<close>

definition THRESHOLD_PERCENT :: real where
  "THRESHOLD_PERCENT = 15 / 10"

definition THRESHOLD_NOTIFY_PERCENT :: real where
  "THRESHOLD_NOTIFY_PERCENT = 2"

definition CHECK_INTERVAL_FAST :: real where
  "CHECK_INTERVAL_FAST = 30"

definition CHECK_INTERVAL_SLOW :: real where
  "CHECK_INTERVAL_SLOW = 120"

definition PAIRS_UPDATE_INTERVAL :: real where
  "PAIRS_UPDATE_INTERVAL = 3600"

definition TOP_VOLUME_LIMIT :: int where
  "TOP_VOLUME_LIMIT = 100"

definition API_RATE_LIMIT :: real where
  "API_RATE_LIMIT = 20"

definition API_MAX_CONCURRENT_REQUESTS :: nat where
  "API_MAX_CONCURRENT_REQUESTS = 10"

section \<open>String operations used by the scanner\<close>

text \<open>\<open>str.upper()\<close> on ASCII text: the 26 lower-case letters are mapped, all else is kept.\<close>

definition upper_char :: "char \<Rightarrow> char" where
  "upper_char c =
     (case map_of (zip ''abcdefghijklmnopqrstuvwxyz'' ''ABCDEFGHIJKLMNOPQRSTUVWXYZ'') c of
        Some u \<Rightarrow> u
      | None \<Rightarrow> c)"

definition upper :: "string \<Rightarrow> string" where
  "upper s = map upper_char s"

text \<open>\<open>pat\<close> matches \<open>s\<close> at its first position (\<open>s.startswith(pat)\<close>).\<close>

fun starts_with :: "string \<Rightarrow> string \<Rightarrow> bool" where
  "starts_with [] s = True"
| "starts_with (p # ps) [] = False"
| "starts_with (p # ps) (c # cs) = (p = c \<and> starts_with ps cs)"

text \<open>
  \<open>s.replace(old, new)\<close>: scan from the left, replace every non-overlapping occurrence.
  With an empty \<open>old\<close> Python inserts \<open>new\<close> before every character and at the end.
\<close>

function str_replace :: "string \<Rightarrow> string \<Rightarrow> string \<Rightarrow> string" where
  "str_replace old new [] = (if old = [] then new else [])"
| "str_replace old new (c # cs) =
     (if old = [] then new @ concat (map (\<lambda>x. x # new) (c # cs))
      else if starts_with old (c # cs)
           then new @ str_replace old new (drop (length old) (c # cs))
      else c # str_replace old new cs)"
  by pat_completeness auto
termination
  by (relation "measure (\<lambda>(old, new, s). length s)") auto

text \<open>\<open>pat in s\<close> on strings: \<open>pat\<close> occurs as a contiguous substring of \<open>s\<close>.\<close>

fun str_contains :: "string \<Rightarrow> string \<Rightarrow> bool" where
  "str_contains pat [] = (pat = [])"
| "str_contains pat (c # cs) = (starts_with pat (c # cs) \<or> str_contains pat cs)"

section \<open>SymbolMatcher: normalize\_symbol (scanner.py)\<close>

definition futures_suffixes :: "string list" where
  "futures_suffixes =
     [''_PERP'', ''_USD'', ''_USDT'', ''_FUTURE'', ''_THISWEEK'', ''_NEXTWEEK'',
      ''_QUARTER'', ''_NEXTQUARTER'']"

text \<open>
  \<open>re.sub(r"(_PERP|...|_NEXTQUARTER)$", "", symbol)\<close>: the leftmost position at which one of
  the alternatives reaches the end of the string is cut off. Without the MULTILINE flag
  \<open>$\<close> also matches just before a final newline, which is then kept.
\<close>

fun re_sub_suffix :: "string \<Rightarrow> string" where
  "re_sub_suffix [] = []"
| "re_sub_suffix (c # cs) =
     (if c # cs \<in> set futures_suffixes then []
      else if c # cs \<in> set (map (\<lambda>suf. suf @ [CHR 0x0A]) futures_suffixes) then [CHR 0x0A]
      else c # re_sub_suffix cs)"

definition normalize_symbol :: "string \<Rightarrow> string \<Rightarrow> string" where
  "normalize_symbol symbol symbol_type =
     (let symbol = upper symbol in
      if symbol_type = ''spot'' then str_replace ''USD'' [] (str_replace ''USDT'' [] symbol)
      else if symbol_type = ''futures'' then str_replace ''_'' [] (re_sub_suffix symbol)
      else symbol)"

text \<open>\<open>xs[:n]\<close>: a negative \<open>n\<close> counts from the end.\<close>

definition py_prefix :: "int \<Rightarrow> 'a list \<Rightarrow> 'a list" where
  "py_prefix n xs = (if 0 \<le> n then take (nat n) xs else take (length xs - nat (- n)) xs)"

section \<open>The environment and the mutable state\<close>

text \<open>
  The scanner's \<open>signal\<close> is the dict literal built by \<open>fetch_data_for_pair\<close>: eight fixed
  keys, here the fields of a record. \<open>signal_dict\<close> is that dict as \<open>save_signal\<close> sees it.
\<close>

record signal =
  spot_symbol :: string
  futures_symbol :: string
  spot_price :: real
  futures_price :: real
  spread_percent :: real
  volume_spot :: real
  timestamp :: string
  bid_ask :: string

definition signal_dict :: "signal \<Rightarrow> (string \<times> pyval) list" where
  "signal_dict s =
     [(''spot_symbol'', PStr (spot_symbol s)),
      (''futures_symbol'', PStr (futures_symbol s)),
      (''spot_price'', PFloat (spot_price s)),
      (''futures_price'', PFloat (futures_price s)),
      (''spread_percent'', PFloat (spread_percent s)),
      (''volume_spot'', PFloat (volume_spot s)),
      (''timestamp'', PStr (timestamp s)),
      (''bid_ask'', PStr (bid_ask s))]"

text \<open>A row of table \<open>arbitrage_signals\<close>: the five inserted columns.\<close>

record db_row =
  row_symbol :: pyval
  row_spot_price :: pyval
  row_futures_price :: pyval
  row_spread_percent :: pyval
  row_volume :: pyval

datatype send_result = Sent | SendTimedOut | SendFailed

datatype event =
    Sleep real
  | SpotRequest string nat
  | FuturesRequest string nat
  | RefreshPairs
  | Deliver int string

text \<open>
  Everything outside the program is read from an \<open>env\<close>: the upstream answers (per symbol
  and attempt), the ranked-symbol source (the list \<open>get_top_symbols\<close> slices, or its
  failure), the parser behind \<open>float(str)\<close>, the wall-clock string, whether SQLite accepts
  statements, and the message formatter (presentation layer).
\<close>

record env =
  spot_http :: "string \<Rightarrow> nat \<Rightarrow> http_result"
  futures_http :: "string \<Rightarrow> nat \<Rightarrow> http_result"
  listing_http :: http_result
  ranking :: "string list option"
  parse_float :: "string \<Rightarrow> real option"
  gmtime_str :: string
  db_up :: bool
  create_signal_message :: "signal \<Rightarrow> string"

text \<open>
  The mutable state: the clock (advanced by \<open>asyncio.sleep\<close>), the module globals
  \<open>_last_request_time\<close> and \<open>semaphore\<close> of scanner.py, the two database tables the
  scanner touches, and the trace of observable events.
\<close>

record world =
  clock :: real
  last_request_time :: real
  sem_value :: nat
  signals_table :: "db_row list"
  subscribers_table :: "int list"
  trace :: "event list"

text \<open>
  A call returns a value, raises, or stays suspended on the exhausted semaphore for ever
  (no other task runs in this model, so nobody would release a slot).
\<close>

datatype 'a outcome = Returns 'a world | Raises py_error world | Suspended

section \<open>Rate limiting (scanner.py)\<close>

definition min_interval :: real where
  "min_interval = (if API_RATE_LIMIT > 0 then 1 / API_RATE_LIMIT else 2 / 10)"

definition asyncio_sleep :: "real \<Rightarrow> world \<Rightarrow> world" where
  "asyncio_sleep d w = w\<lparr>clock := clock w + d, trace := trace w @ [Sleep d]\<rparr>"

definition rate_limit :: "world \<Rightarrow> world" where
  "rate_limit w =
     (let now = clock w;
          elapsed = now - last_request_time w;
          w1 = (if elapsed < min_interval then asyncio_sleep (min_interval - elapsed) w else w)
      in w1\<lparr>last_request_time := clock w1\<rparr>)"

definition sem_acquire :: "world \<Rightarrow> unit outcome" where
  "sem_acquire w =
     (if sem_value w = 0 then Suspended else Returns () (w\<lparr>sem_value := sem_value w - 1\<rparr>))"

definition sem_release :: "world \<Rightarrow> world" where
  "sem_release w = w\<lparr>sem_value := Suc (sem_value w)\<rparr>"

section \<open>SymbolMatcher: the pair set (scanner.py, symbols\_loader.py)\<close>

text \<open>
  \<open>item.get("symbol") or item.get("contractName") or item.get("instrumentId")\<close>, kept when
  truthy; an item that is not a dict is skipped.
\<close>

fun item_symbol :: "json \<Rightarrow> json option" where
  "item_symbol (JObj kv) =
     (let symbol = py_or (py_or (dict_get kv ''symbol'') (dict_get kv ''contractName''))
                         (dict_get kv ''instrumentId'')
      in if truthy symbol then Some symbol else None)"
| "item_symbol other = None"

text \<open>The body of the \<open>try\<close> in \<open>get_futures_symbols\<close>; \<open>data.get\<close> raises on a non-dict.\<close>

definition get_futures_symbols_try :: "http_result \<Rightarrow> py_error + json list" where
  "get_futures_symbols_try resp =
     (case resp of
        HttpFailed \<Rightarrow> Inl TransportError
      | HttpJson data \<Rightarrow>
          (case json_get data ''data'' of
             Inl e \<Rightarrow> Inl e
           | Inr (JArr items) \<Rightarrow> Inr (List.map_filter item_symbol items)
           | Inr other \<Rightarrow> Inr []))"

definition get_futures_symbols :: "env \<Rightarrow> json list" where
  "get_futures_symbols e =
     (case get_futures_symbols_try (listing_http e) of
        Inl exc \<Rightarrow> []
      | Inr symbols \<Rightarrow> symbols)"

text \<open>
  \<open>get_top_symbols(limit)\<close> returns \<open>ranked[:limit]\<close>, where \<open>ranked\<close> is the cached list or
  the freshly sorted USDT symbols, and \<open>[]\<close> when the request or its decoding fails. Every
  element is a string (\<open>item['symbol'].endswith\<close> has been called on it).
\<close>

definition get_top_symbols :: "env \<Rightarrow> int \<Rightarrow> string list" where
  "get_top_symbols e limit =
     (case ranking e of None \<Rightarrow> [] | Some ranked \<Rightarrow> py_prefix limit ranked)"

text \<open>The loop filling \<open>futures_norm_map\<close>: a later symbol overwrites an earlier one.\<close>

fun futures_norm_map :: "json list \<Rightarrow> (string \<rightharpoonup> string) \<Rightarrow> (string \<rightharpoonup> string)" where
  "futures_norm_map [] m = m"
| "futures_norm_map (JStr f_sym # rest) m =
     futures_norm_map rest (m(normalize_symbol f_sym ''futures'' \<mapsto> f_sym))"
| "futures_norm_map (other # rest) m = futures_norm_map rest m"

text \<open>The loop over \<open>spot_symbols\<close>, with its \<open>break\<close> after the append.\<close>

fun match_pairs ::
  "(string \<rightharpoonup> string) \<Rightarrow> int \<Rightarrow> string list \<Rightarrow> (string \<times> string) list \<Rightarrow> (string \<times> string) list"
where
  "match_pairs m limit [] filtered = filtered"
| "match_pairs m limit (spot_sym # rest) filtered =
     (case m (normalize_symbol spot_sym ''spot'') of
        None \<Rightarrow> match_pairs m limit rest filtered
      | Some f_sym \<Rightarrow>
          (let filtered' = filtered @ [(spot_sym, f_sym)]
           in if int (length filtered') \<ge> limit then filtered'
              else match_pairs m limit rest filtered'))"

definition get_top_symbol_pairs :: "env \<Rightarrow> int \<Rightarrow> (string \<times> string) list" where
  "get_top_symbol_pairs e limit =
     (let futures_symbols_raw = get_futures_symbols e in
      if futures_symbols_raw = [] then []
      else
        let spot_symbols =
              filter (\<lambda>s. \<not> str_contains ''TRUMP'' s) (get_top_symbols e (limit * 3))
        in match_pairs (futures_norm_map futures_symbols_raw Map.empty) limit spot_symbols [])"

section \<open>PriceFetcher (scanner.py)\<close>

fun py_float :: "env \<Rightarrow> json \<Rightarrow> py_error + real" where
  "py_float e (JNum r) = Inr r"
| "py_float e (JBool b) = Inr (if b then 1 else 0)"
| "py_float e (JStr s) = (case parse_float e s of Some r \<Rightarrow> Inr r | None \<Rightarrow> Inl ValueError)"
| "py_float e other = Inl TypeError"

text \<open>One pass through the \<open>try\<close> body of \<open>fetch_spot_price\<close>.\<close>

definition spot_attempt :: "env \<Rightarrow> string \<Rightarrow> nat \<Rightarrow> py_error + (real \<times> real)" where
  "spot_attempt e symbol attempt =
     (case spot_http e symbol attempt of
        HttpFailed \<Rightarrow> Inl TransportError
      | HttpJson data \<Rightarrow>
          (case data of
             JObj kv \<Rightarrow>
               (case py_float e (py_or (py_or (dict_get kv ''lastPrice'') (dict_get kv ''price''))
                                       (JNum 0)) of
                  Inl exc \<Rightarrow> Inl exc
                | Inr price \<Rightarrow>
                    (case py_float e (py_or (dict_get kv ''quoteVolume'') (JNum 0)) of
                       Inl exc \<Rightarrow> Inl exc
                     | Inr quote_volume \<Rightarrow> Inr (price, quote_volume)))
           | other \<Rightarrow> Inl AttributeError))"

text \<open>\<open>for attempt in range(retries)\<close>, then the sentinel \<open>0, 0\<close>.\<close>

fun spot_attempts :: "env \<Rightarrow> string \<Rightarrow> nat list \<Rightarrow> world \<Rightarrow> (real \<times> real) \<times> world" where
  "spot_attempts e symbol [] w = ((0, 0), w)"
| "spot_attempts e symbol (attempt # rest) w =
     (let w1 = w\<lparr>trace := trace w @ [SpotRequest symbol attempt]\<rparr>
      in case spot_attempt e symbol attempt of
           Inr r \<Rightarrow> (r, w1)
         | Inl exc \<Rightarrow>
             spot_attempts e symbol rest (asyncio_sleep (15 / 10 * (real attempt + 1)) w1))"

definition fetch_spot_price :: "env \<Rightarrow> string \<Rightarrow> nat \<Rightarrow> world \<Rightarrow> (real \<times> real) outcome" where
  "fetch_spot_price e symbol retries w =
     (case sem_acquire w of
        Returns u w1 \<Rightarrow>
          (case spot_attempts e symbol [0..<retries] (rate_limit w1) of
             (r, w2) \<Rightarrow> Returns r (sem_release w2))
      | Raises exc w1 \<Rightarrow> Raises exc w1
      | Suspended \<Rightarrow> Suspended)"

text \<open>\<open>k in x\<close> for a string key \<open>k\<close>.\<close>

fun json_contains :: "string \<Rightarrow> json \<Rightarrow> py_error + bool" where
  "json_contains k (JObj kv) = Inr (map_of kv k \<noteq> None)"
| "json_contains k (JArr xs) = Inr (JStr k \<in> set xs)"
| "json_contains k (JStr s) = Inr (str_contains k s)"
| "json_contains k other = Inl TypeError"

text \<open>
  One pass through the \<open>try\<close> body of \<open>fetch_futures_price\<close>: it returns the price, or
  goes on to the next attempt after a back-off (status code 510) or at once.
\<close>

datatype attempt_result = Price real | RetryAfterSleep | RetryNow

definition futures_attempt_try :: "env \<Rightarrow> string \<Rightarrow> nat \<Rightarrow> py_error + attempt_result" where
  "futures_attempt_try e symbol attempt =
     (case futures_http e symbol attempt of
        HttpFailed \<Rightarrow> Inl TransportError
      | HttpJson data \<Rightarrow>
          (let has_price =
             (case json_contains ''data'' data of
                Inl exc \<Rightarrow> Inl exc
              | Inr False \<Rightarrow> Inr False
              | Inr True \<Rightarrow>
                  (case json_index data ''data'' of
                     Inl exc \<Rightarrow> Inl exc
                   | Inr inner \<Rightarrow> json_contains ''lastPrice'' inner))
           in case has_price of
                Inl exc \<Rightarrow> Inl exc
              | Inr True \<Rightarrow>
                  (case json_index data ''data'' of
                     Inl exc \<Rightarrow> Inl exc
                   | Inr inner \<Rightarrow>
                       (case json_index inner ''lastPrice'' of
                          Inl exc \<Rightarrow> Inl exc
                        | Inr v \<Rightarrow>
                            (case py_float e v of
                               Inl exc \<Rightarrow> Inl exc
                             | Inr price \<Rightarrow> Inr (Price price))))
              | Inr False \<Rightarrow>
                  (case json_get data ''code'' of
                     Inl exc \<Rightarrow> Inl exc
                   | Inr code \<Rightarrow>
                       Inr (if code = JNum 510 then RetryAfterSleep else RetryNow))))"

fun futures_attempts :: "env \<Rightarrow> string \<Rightarrow> nat list \<Rightarrow> world \<Rightarrow> real \<times> world" where
  "futures_attempts e symbol [] w = (0, w)"
| "futures_attempts e symbol (attempt # rest) w =
     (let w1 = w\<lparr>trace := trace w @ [FuturesRequest symbol attempt]\<rparr>
      in case futures_attempt_try e symbol attempt of
           Inr (Price price) \<Rightarrow> (price, w1)
         | Inr RetryNow \<Rightarrow> futures_attempts e symbol rest w1
         | Inr RetryAfterSleep \<Rightarrow>
             futures_attempts e symbol rest (asyncio_sleep (15 / 10 * (real attempt + 1)) w1)
         | Inl exc \<Rightarrow>
             futures_attempts e symbol rest (asyncio_sleep (15 / 10 * (real attempt + 1)) w1))"

definition fetch_futures_price :: "env \<Rightarrow> string \<Rightarrow> nat \<Rightarrow> world \<Rightarrow> real outcome" where
  "fetch_futures_price e symbol retries w =
     (case sem_acquire w of
        Returns u w1 \<Rightarrow>
          (case futures_attempts e symbol [0..<retries] (rate_limit w1) of
             (r, w2) \<Rightarrow> Returns r (sem_release w2))
      | Raises exc w1 \<Rightarrow> Raises exc w1
      | Suspended \<Rightarrow> Suspended)"

section \<open>SpreadEvaluator: fetch\_data\_for\_pair (scanner.py)\<close>

text \<open>
  Neither fetch raises, and the arithmetic on two positive reals cannot, so the handler of
  the \<open>try\<close> in \<open>fetch_data_for_pair\<close> only passes on what the fetches raise.
\<close>

definition fetch_data_for_pair :: "env \<Rightarrow> string \<Rightarrow> string \<Rightarrow> world \<Rightarrow> signal option outcome" where
  "fetch_data_for_pair e spot_sym futures_sym w =
     (case fetch_spot_price e spot_sym 3 w of
        Suspended \<Rightarrow> Suspended
      | Raises exc w1 \<Rightarrow> Returns None w1
      | Returns (spot_price_v, volume) w1 \<Rightarrow>
          (case fetch_futures_price e futures_sym 3 w1 of
             Suspended \<Rightarrow> Suspended
           | Raises exc w2 \<Rightarrow> Returns None w2
           | Returns futures_price_v w2 \<Rightarrow>
               if spot_price_v \<le> 0 \<or> futures_price_v \<le> 0 then Returns None w2
               else
                 let spread = \<bar>(futures_price_v - spot_price_v) / spot_price_v\<bar> * 100
                 in Returns
                      (Some \<lparr>spot_symbol = spot_sym,
                             futures_symbol = futures_sym,
                             spot_price = spot_price_v,
                             futures_price = futures_price_v,
                             spread_percent = spread,
                             volume_spot = volume,
                             timestamp = gmtime_str e,
                             bid_ask =
                               (if futures_price_v > spot_price_v then ''Buy Spot / Sell Futures''
                                else ''Buy Futures / Sell Spot'')\<rparr>)
                      w2))"

section \<open>Persistence: save\_signal (database.py)\<close>

text \<open>
  What \<open>save_signal\<close> can be called with: an \<open>ArbitrageSignal\<close> (its fields \<open>symbol\<close>,
  \<open>spot_price\<close>, \<open>futures_price\<close>, \<open>spread_percent\<close>, \<open>volume\<close>, in this order), a dict, or
  anything else.
\<close>

datatype signal_arg =
    ArbitrageSignal pyval pyval pyval pyval pyval
  | DictArg "(string \<times> pyval) list"
  | OtherArg

definition dict_item :: "(string \<times> pyval) list \<Rightarrow> string \<Rightarrow> py_error + pyval" where
  "dict_item d k = (case map_of d k of Some v \<Rightarrow> Inr v | None \<Rightarrow> Inl KeyError)"

text \<open>
  The \<open>INSERT\<close> inside \<open>with db_connection() as conn: with conn:\<close>. SQLite is modelled as
  far as the schema in \<open>init_db\<close> says: the statement fails with an \<open>sqlite3.Error\<close> when the
  database cannot be used, when a parameter has a type that cannot be bound, or when a
  \<open>NOT NULL\<close> column would receive \<open>None\<close>; the transaction then leaves the table as it was.
  Otherwise the row is appended.
\<close>

definition insert_signal :: "env \<Rightarrow> db_row \<Rightarrow> world \<Rightarrow> py_error + world" where
  "insert_signal e row w =
     (let params = [row_symbol row, row_spot_price row, row_futures_price row,
                    row_spread_percent row, row_volume row]
      in if \<not> db_up e then Inl SqliteError
         else if PUnsupported \<in> set params then Inl SqliteError
         else if PNone \<in> set params then Inl SqliteError
         else Inr (w\<lparr>signals_table := signals_table w @ [row]\<rparr>))"

text \<open>The body of the \<open>try\<close> in \<open>save_signal\<close>.\<close>

fun save_signal_try :: "env \<Rightarrow> signal_arg \<Rightarrow> world \<Rightarrow> py_error + (bool \<times> world)" where
  "save_signal_try e (ArbitrageSignal symbol_v spot_v futures_v spread_v volume_v) w =
     (case insert_signal e
             \<lparr>row_symbol = symbol_v, row_spot_price = spot_v, row_futures_price = futures_v,
              row_spread_percent = spread_v, row_volume = volume_v\<rparr> w of
        Inl exc \<Rightarrow> Inl exc
      | Inr w1 \<Rightarrow> Inr (True, w1))"
| "save_signal_try e (DictArg d) w =
     (case dict_item d ''symbol'' of
        Inl exc \<Rightarrow> Inl exc
      | Inr symbol_v \<Rightarrow>
     (case dict_item d ''spot_price'' of
        Inl exc \<Rightarrow> Inl exc
      | Inr spot_v \<Rightarrow>
     (case dict_item d ''futures_price'' of
        Inl exc \<Rightarrow> Inl exc
      | Inr futures_v \<Rightarrow>
     (case dict_item d ''spread_percent'' of
        Inl exc \<Rightarrow> Inl exc
      | Inr spread_v \<Rightarrow>
     (case dict_item d ''volume'' of
        Inl exc \<Rightarrow> Inl exc
      | Inr volume_v \<Rightarrow>
     (case insert_signal e
             \<lparr>row_symbol = symbol_v, row_spot_price = spot_v, row_futures_price = futures_v,
              row_spread_percent = spread_v, row_volume = volume_v\<rparr> w of
        Inl exc \<Rightarrow> Inl exc
      | Inr w1 \<Rightarrow> Inr (True, w1)))))))"
| "save_signal_try e OtherArg w = Inr (False, w)"

text \<open>The two handlers: \<open>except KeyError\<close> and \<open>except sqlite3.Error\<close>; anything else propagates.\<close>

definition save_signal :: "env \<Rightarrow> signal_arg \<Rightarrow> world \<Rightarrow> bool outcome" where
  "save_signal e arg w =
     (case save_signal_try e arg w of
        Inr (saved, w1) \<Rightarrow> Returns saved w1
      | Inl exc \<Rightarrow>
          if exc = KeyError then Returns False w
          else if exc = SqliteError then Returns False w
          else Raises exc w)"

definition get_subscribers :: "env \<Rightarrow> world \<Rightarrow> int list" where
  "get_subscribers e w = (if db_up e then subscribers_table w else [])"

section \<open>NotificationFanout: notify\_subscribers (scanner.py)\<close>

text \<open>
  The inner coroutine \<open>send_message(user_id)\<close>. A call of the send function is a delivery
  attempt, recorded in the trace whatever its result; a timeout is followed by a sleep of
  3 seconds, any other exception is only logged. Without a send function nothing is sent.
\<close>

definition send_message ::
  "(int \<Rightarrow> send_result) option \<Rightarrow> string \<Rightarrow> int \<Rightarrow> world \<Rightarrow> world" where
  "send_message send_message_func message_text user_id w =
     (case send_message_func of
        None \<Rightarrow> w
      | Some send \<Rightarrow>
          (let w1 = w\<lparr>trace := trace w @ [Deliver user_id message_text]\<rparr>
           in case send user_id of
                Sent \<Rightarrow> w1
              | SendTimedOut \<Rightarrow> asyncio_sleep 3 w1
              | SendFailed \<Rightarrow> w1))"

text \<open>
  \<open>asyncio.gather\<close> over \<open>send_message(uid)\<close> for every \<open>uid\<close> in \<open>subscribers\<close>. The
  coroutines overlap in time (five at once, under the local semaphore \<open>sem_notify\<close>); the
  model runs them in the order of the list, which gives the same set of attempts.
\<close>

fun gather_send ::
  "(int \<Rightarrow> send_result) option \<Rightarrow> string \<Rightarrow> int list \<Rightarrow> world \<Rightarrow> world" where
  "gather_send send_message_func message_text [] w = w"
| "gather_send send_message_func message_text (uid # rest) w =
     gather_send send_message_func message_text rest
       (send_message send_message_func message_text uid w)"

definition notify_subscribers ::
  "env \<Rightarrow> signal \<Rightarrow> (int \<Rightarrow> send_result) option \<Rightarrow> world \<Rightarrow> unit outcome" where
  "notify_subscribers e sig send_message_func w =
     (let subscribers = get_subscribers e w in
      if subscribers = [] then Returns () w
      else Returns () (gather_send send_message_func (create_signal_message e sig) subscribers w))"

section \<open>ScanScheduler: process\_and\_notify and main\_loop (scanner.py)\<close>

fun process_and_notify ::
  "env \<Rightarrow> (string \<times> string) list \<Rightarrow> (int \<Rightarrow> send_result) option \<Rightarrow> world \<Rightarrow> unit outcome"
where
  "process_and_notify e [] send_message_func w = Returns () w"
| "process_and_notify e ((spot_sym, fut_sym) # rest) send_message_func w =
     (case fetch_data_for_pair e spot_sym fut_sym w of
        Suspended \<Rightarrow> Suspended
      | Raises exc w1 \<Rightarrow> Raises exc w1
      | Returns None w1 \<Rightarrow> process_and_notify e rest send_message_func w1
      | Returns (Some sig) w1 \<Rightarrow>
          (let spread = spread_percent sig in
           if spread \<ge> THRESHOLD_PERCENT then
             (case save_signal e (DictArg (signal_dict sig)) w1 of
                Suspended \<Rightarrow> Suspended
              | Raises exc w2 \<Rightarrow> Raises exc w2
              | Returns saved w2 \<Rightarrow>
                  if spread \<ge> THRESHOLD_NOTIFY_PERCENT then
                    (case notify_subscribers e sig send_message_func w2 of
                       Suspended \<Rightarrow> Suspended
                     | Raises exc w3 \<Rightarrow> Raises exc w3
                     | Returns u w3 \<Rightarrow> process_and_notify e rest send_message_func w3)
                  else process_and_notify e rest send_message_func w2)
           else process_and_notify e rest send_message_func w1))"

text \<open>The local variables of \<open>main_loop\<close> that live across iterations.\<close>

record loop_state =
  last_pairs_update :: real
  pairs :: "(string \<times> string) list"

text \<open>One pass through the body of \<open>while True\<close>.\<close>

definition main_loop_iteration ::
  "env \<Rightarrow> (int \<Rightarrow> send_result) option \<Rightarrow> loop_state \<Rightarrow> world \<Rightarrow> loop_state outcome" where
  "main_loop_iteration e send_message_func ls w =
     (let now = clock w;
          refresh = (now - last_pairs_update ls > PAIRS_UPDATE_INTERVAL \<or> pairs ls = []);
          ls1 = (if refresh
                 then \<lparr>last_pairs_update = now,
                       pairs = get_top_symbol_pairs e TOP_VOLUME_LIMIT\<rparr>
                 else ls);
          w1 = (if refresh then w\<lparr>trace := trace w @ [RefreshPairs]\<rparr> else w);
          fast_pairs = take 50 (pairs ls1);
          slow_pairs = drop 50 (pairs ls1);
          after_fast =
            (if fast_pairs \<noteq> [] then
               (case process_and_notify e fast_pairs send_message_func w1 of
                  Suspended \<Rightarrow> Suspended
                | Raises exc w2 \<Rightarrow> Returns () (asyncio_sleep CHECK_INTERVAL_FAST w2)
                | Returns u w2 \<Rightarrow> Returns () (asyncio_sleep CHECK_INTERVAL_FAST w2))
             else Returns () w1)
      in case after_fast of
           Suspended \<Rightarrow> Suspended
         | Raises exc w2 \<Rightarrow> Raises exc w2
         | Returns u w2 \<Rightarrow>
             (if slow_pairs \<noteq> [] then
                (case process_and_notify e slow_pairs send_message_func w2 of
                   Suspended \<Rightarrow> Suspended
                 | Raises exc w3 \<Rightarrow> Returns ls1 (asyncio_sleep CHECK_INTERVAL_SLOW w3)
                 | Returns u w3 \<Rightarrow> Returns ls1 (asyncio_sleep CHECK_INTERVAL_SLOW w3))
              else Returns ls1 w2))"

text \<open>The first \<open>n\<close> passes of the loop, which by itself never ends.\<close>

fun main_loop_iterations ::
  "nat \<Rightarrow> env \<Rightarrow> (int \<Rightarrow> send_result) option \<Rightarrow> loop_state \<Rightarrow> world \<Rightarrow> loop_state outcome"
where
  "main_loop_iterations 0 e send_message_func ls w = Returns ls w"
| "main_loop_iterations (Suc n) e send_message_func ls w =
     (case main_loop_iteration e send_message_func ls w of
        Suspended \<Rightarrow> Suspended
      | Raises exc w1 \<Rightarrow> Raises exc w1
      | Returns ls1 w1 \<Rightarrow> main_loop_iterations n e send_message_func ls1 w1)"

text \<open>The state at the start of \<open>main_loop\<close>, and the module globals at import time.\<close>

definition initial_loop_state :: loop_state where
  "initial_loop_state = \<lparr>last_pairs_update = 0, pairs = []\<rparr>"

definition initial_world :: "real \<Rightarrow> int list \<Rightarrow> world" where
  "initial_world now subs =
     \<lparr>clock = now, last_request_time = 0,
      sem_value = (if API_MAX_CONCURRENT_REQUESTS \<noteq> 0 then API_MAX_CONCURRENT_REQUESTS else 5),
      signals_table = [], subscribers_table = subs, trace = []\<rparr>"

section \<open>Values used to run the model\<close>

text \<open>
  An environment in which every spot ticker answers 100 (as a string, with volume 5000),
  every futures ticker answers 108, two contracts are listed and three spot symbols ranked.
\<close>

definition example_env :: env where
  "example_env =
     \<lparr>spot_http = (\<lambda>symbol attempt.
        HttpJson (JObj [(''lastPrice'', JStr ''100''), (''quoteVolume'', JNum 5000)])),
      futures_http = (\<lambda>symbol attempt.
        HttpJson (JObj [(''data'', JObj [(''lastPrice'', JNum 108)])])),
      listing_http =
        HttpJson (JObj [(''data'', JArr [JObj [(''symbol'', JStr ''BTC_USDT'')],
                                         JObj [(''symbol'', JStr ''ETH_USDT'')]])]),
      ranking = Some [''BTCUSDT'', ''XRPUSDT'', ''ETHUSDT''],
      parse_float = (\<lambda>s. if s = ''100'' then Some 100 else None),
      gmtime_str = ''2025-01-01 00:00:00'',
      db_up = True,
      create_signal_message = (\<lambda>sig. spot_symbol sig)\<rparr>"

definition example_signal :: signal where
  "example_signal =
     \<lparr>spot_symbol = ''BTCUSDT'', futures_symbol = ''BTC_USDT'', spot_price = 100,
      futures_price = 108, spread_percent = 8, volume_spot = 5000,
      timestamp = ''2025-01-01 00:00:00'', bid_ask = ''Buy Spot / Sell Futures''\<rparr>"



section \<open>Vocabulary of the properties\<close>



text \<open>The derivative listing answered with a JSON object whose \<open>data\<close> member is a list.\<close>

fun has_symbol_list :: "http_result \<Rightarrow> bool" where
  "has_symbol_list (HttpJson (JObj kv)) =
     (case dict_get kv ''data'' of JArr items \<Rightarrow> True | other \<Rightarrow> False)"
| "has_symbol_list other = False"

fun is_spot_request :: "event \<Rightarrow> bool" where
  "is_spot_request (SpotRequest symbol attempt) = True"
| "is_spot_request ev = False"


section \<open>Spot normalization (C3)\<close>

















section \<open>What each call leaves unchanged\<close>

text \<open>
  Sleeping, rate limiting and the retry loops never touch the database tables, and every
  fetch gives back the semaphore slot it took. A fetch that finds a free slot returns.
\<close>

lemma asyncio_sleep_frame [simp]:
  "sem_value (asyncio_sleep d w) = sem_value w"
  "signals_table (asyncio_sleep d w) = signals_table w"
  "subscribers_table (asyncio_sleep d w) = subscribers_table w"
  "last_request_time (asyncio_sleep d w) = last_request_time w"
  "clock (asyncio_sleep d w) = clock w + d"
  "trace (asyncio_sleep d w) = trace w @ [Sleep d]"
  by (simp_all add: asyncio_sleep_def)

lemma rate_limit_frame [simp]:
  "sem_value (rate_limit w) = sem_value w"
  "signals_table (rate_limit w) = signals_table w"
  "subscribers_table (rate_limit w) = subscribers_table w"
  by (simp_all add: rate_limit_def Let_def)


lemma spot_attempts_frame:
  "spot_attempts e symbol attempts w = (r, w') \<Longrightarrow>
     sem_value w' = sem_value w \<and> signals_table w' = signals_table w \<and>
     subscribers_table w' = subscribers_table w \<and> last_request_time w' = last_request_time w"
proof (induction attempts arbitrary: w)
  case Nil
  then show ?case by simp
next
  case (Cons a attempts)
  show ?case
  proof (cases "spot_attempt e symbol a")
    case (Inl exc)
    with Cons.prems have
      "spot_attempts e symbol attempts
         (asyncio_sleep (15 / 10 * (real a + 1)) (w\<lparr>trace := trace w @ [SpotRequest symbol a]\<rparr>))
       = (r, w')"
      by (simp add: Let_def)
    from Cons.IH [OF this] show ?thesis by simp
  next
    case (Inr res)
    with Cons.prems show ?thesis by (auto simp: Let_def)
  qed
qed

lemma futures_attempts_frame:
  "futures_attempts e symbol attempts w = (r, w') \<Longrightarrow>
     sem_value w' = sem_value w \<and> signals_table w' = signals_table w \<and>
     subscribers_table w' = subscribers_table w \<and> last_request_time w' = last_request_time w"
proof (induction attempts arbitrary: w)
  case Nil
  then show ?case by simp
next
  case (Cons a attempts)
  let ?w1 = "w\<lparr>trace := trace w @ [FuturesRequest symbol a]\<rparr>"
  consider (price) p where "futures_attempt_try e symbol a = Inr (Price p)"
    | (now) "futures_attempt_try e symbol a = Inr RetryNow"
    | (later) "futures_attempt_try e symbol a = Inr RetryAfterSleep"
    | (exc) x where "futures_attempt_try e symbol a = Inl x"
    by (cases "futures_attempt_try e symbol a"; simp)
       (metis attempt_result.exhaust)
  then show ?case
  proof cases
    case price
    with Cons.prems show ?thesis by (auto simp: Let_def)
  next
    case now
    with Cons.prems have "futures_attempts e symbol attempts ?w1 = (r, w')"
      by (simp add: Let_def)
    from Cons.IH [OF this] show ?thesis by simp
  next
    case later
    with Cons.prems have
      "futures_attempts e symbol attempts (asyncio_sleep (15 / 10 * (real a + 1)) ?w1) = (r, w')"
      by (simp add: Let_def)
    from Cons.IH [OF this] show ?thesis by simp
  next
    case exc
    with Cons.prems have
      "futures_attempts e symbol attempts (asyncio_sleep (15 / 10 * (real a + 1)) ?w1) = (r, w')"
      by (simp add: Let_def)
    from Cons.IH [OF this] show ?thesis by simp
  qed
qed

lemma fetch_spot_price_returns:
  assumes "0 < sem_value w"
  shows "\<exists>r w'. fetch_spot_price e symbol retries w = Returns r w' \<and>
           sem_value w' = sem_value w \<and> signals_table w' = signals_table w \<and>
           subscribers_table w' = subscribers_table w"
proof -
  let ?w1 = "rate_limit (w\<lparr>sem_value := sem_value w - 1\<rparr>)"
  obtain r w2 where a: "spot_attempts e symbol [0..<retries] ?w1 = (r, w2)"
    by (cases "spot_attempts e symbol [0..<retries] ?w1")
  from spot_attempts_frame [OF a] assms a
  show ?thesis
    by (simp add: fetch_spot_price_def sem_acquire_def sem_release_def)
qed

lemma fetch_futures_price_returns:
  assumes "0 < sem_value w"
  shows "\<exists>r w'. fetch_futures_price e symbol retries w = Returns r w' \<and>
           sem_value w' = sem_value w \<and> signals_table w' = signals_table w \<and>
           subscribers_table w' = subscribers_table w"
proof -
  let ?w1 = "rate_limit (w\<lparr>sem_value := sem_value w - 1\<rparr>)"
  obtain r w2 where a: "futures_attempts e symbol [0..<retries] ?w1 = (r, w2)"
    by (cases "futures_attempts e symbol [0..<retries] ?w1")
  from futures_attempts_frame [OF a] assms a
  show ?thesis
    by (simp add: fetch_futures_price_def sem_acquire_def sem_release_def)
qed

lemma fetch_data_for_pair_returns:
  assumes "0 < sem_value w"
  shows "\<exists>r w'. fetch_data_for_pair e spot_sym fut_sym w = Returns r w' \<and>
           sem_value w' = sem_value w \<and> signals_table w' = signals_table w \<and>
           subscribers_table w' = subscribers_table w"
proof -
  obtain r1 w1 where s: "fetch_spot_price e spot_sym 3 w = Returns r1 w1"
    and f1: "sem_value w1 = sem_value w" "signals_table w1 = signals_table w"
      "subscribers_table w1 = subscribers_table w"
    using fetch_spot_price_returns [OF assms] by blast
  have "0 < sem_value w1" using assms f1 by simp
  then obtain r2 w2 where f: "fetch_futures_price e fut_sym 3 w1 = Returns r2 w2"
    and f2: "sem_value w2 = sem_value w1" "signals_table w2 = signals_table w1"
      "subscribers_table w2 = subscribers_table w1"
    using fetch_futures_price_returns by blast
  show ?thesis
    using s f f1 f2 by (cases r1) (simp add: fetch_data_for_pair_def Let_def)
qed

lemma save_signal_scanner_dict:
  "save_signal e (DictArg (signal_dict sig)) w = Returns False w"
  by (simp add: save_signal_def signal_dict_def dict_item_def)

lemma send_message_frame [simp]:
  "sem_value (send_message f text uid w) = sem_value w"
  "signals_table (send_message f text uid w) = signals_table w"
  "subscribers_table (send_message f text uid w) = subscribers_table w"
  by (simp_all add: send_message_def Let_def split: option.splits send_result.splits)

lemma gather_send_frame [simp]:
  "sem_value (gather_send f text uids w) = sem_value w"
  "signals_table (gather_send f text uids w) = signals_table w"
  "subscribers_table (gather_send f text uids w) = subscribers_table w"
  by (induction uids arbitrary: w; simp)+

lemma notify_subscribers_returns:
  "\<exists>w'. notify_subscribers e sig f w = Returns () w' \<and>
        sem_value w' = sem_value w \<and> signals_table w' = signals_table w \<and>
        subscribers_table w' = subscribers_table w"
  by (simp add: notify_subscribers_def Let_def)

lemma process_and_notify_returns:
  assumes "0 < sem_value w"
  shows "\<exists>w'. process_and_notify e prs f w = Returns () w' \<and>
           sem_value w' = sem_value w \<and> signals_table w' = signals_table w \<and>
           subscribers_table w' = subscribers_table w"
  using assms
proof (induction prs arbitrary: w)
  case Nil
  then show ?case by simp
next
  case (Cons pr prs)
  obtain spot_sym fut_sym where pr: "pr = (spot_sym, fut_sym)" by (cases pr)
  obtain r w1 where fd: "fetch_data_for_pair e spot_sym fut_sym w = Returns r w1"
    and f1: "sem_value w1 = sem_value w" "signals_table w1 = signals_table w"
      "subscribers_table w1 = subscribers_table w"
    using fetch_data_for_pair_returns [OF Cons.prems] by blast
  have pos1: "0 < sem_value w1" using Cons.prems f1 by simp
  show ?case
  proof (cases r)
    case None
    with Cons.IH [OF pos1] fd f1 pr show ?thesis by simp
  next
    case (Some sig)
    obtain w3 where n: "notify_subscribers e sig f w1 = Returns () w3"
      and f3: "sem_value w3 = sem_value w1" "signals_table w3 = signals_table w1"
        "subscribers_table w3 = subscribers_table w1"
      using notify_subscribers_returns by blast
    have pos3: "0 < sem_value w3" using pos1 f3 by simp
    show ?thesis
      using Cons.IH [OF pos1] Cons.IH [OF pos3] fd f1 f3 n pr Some
      by (auto simp: Let_def save_signal_scanner_dict)
  qed
qed

section \<open>The model run on the example\<close>

lemma upt_0_3: "[0..<3] = [0, 1, 2]"
  by (simp add: upt_rec)

lemma example_fetch_spot:
  "fetch_spot_price example_env ''BTCUSDT'' 3 (initial_world 1000 []) =
     Returns (100, 5000)
       \<lparr>clock = 1000, last_request_time = 1000, sem_value = 10, signals_table = [],
        subscribers_table = [], trace = [SpotRequest ''BTCUSDT'' 0]\<rparr>"
  by (simp add: fetch_spot_price_def sem_acquire_def sem_release_def rate_limit_def
      min_interval_def API_RATE_LIMIT_def API_MAX_CONCURRENT_REQUESTS_def asyncio_sleep_def
      spot_attempt_def py_or_def dict_get_def initial_world_def example_env_def upt_0_3)

lemma example_fetch_futures:
  "fetch_futures_price example_env ''BTC_USDT'' 3
       \<lparr>clock = 1000, last_request_time = 1000, sem_value = 10, signals_table = [],
        subscribers_table = [], trace = [SpotRequest ''BTCUSDT'' 0]\<rparr> =
     Returns 108
       \<lparr>clock = 1000 + 1 / 20, last_request_time = 1000 + 1 / 20, sem_value = 10,
        signals_table = [], subscribers_table = [],
        trace = [SpotRequest ''BTCUSDT'' 0, Sleep (1 / 20), FuturesRequest ''BTC_USDT'' 0]\<rparr>"
  by (simp add: fetch_futures_price_def sem_acquire_def sem_release_def rate_limit_def
      min_interval_def API_RATE_LIMIT_def API_MAX_CONCURRENT_REQUESTS_def asyncio_sleep_def
      futures_attempt_try_def py_or_def dict_get_def initial_world_def example_env_def upt_0_3)

section \<open>Spread evaluation (C2)\<close>

text \<open>
  C2. Whatever the two fetches return: when the spot price and the futures price are both
  positive, \<open>fetch_data_for_pair\<close> produces a signal whose \<open>spread_percent\<close> is
  \<open>|futures - spot| / spot * 100\<close>, which carries the two prices, the volume and the
  symbols, and whose direction \<open>bid_ask\<close> says which price is larger; when either price
  is zero or negative it produces no signal (\<open>None\<close>).
\<close>

theorem fetch_data_for_pair_spread:
  assumes "fetch_spot_price e spot_sym 3 w = Returns (sp, vol) w1"
    and "fetch_futures_price e fut_sym 3 w1 = Returns fp w2"
  shows "(0 < sp \<and> 0 < fp \<longrightarrow>
           (\<exists>sig. fetch_data_for_pair e spot_sym fut_sym w = Returns (Some sig) w2 \<and>
                  spread_percent sig = \<bar>fp - sp\<bar> / sp * 100 \<and>
                  spot_price sig = sp \<and> futures_price sig = fp \<and> volume_spot sig = vol \<and>
                  spot_symbol sig = spot_sym \<and> futures_symbol sig = fut_sym \<and>
                  (sp < fp \<longrightarrow> bid_ask sig = ''Buy Spot / Sell Futures'') \<and>
                  (fp < sp \<longrightarrow> bid_ask sig = ''Buy Futures / Sell Spot''))) \<and>
         (sp \<le> 0 \<or> fp \<le> 0 \<longrightarrow> fetch_data_for_pair e spot_sym fut_sym w = Returns None w2)"
  using assms by (auto simp: fetch_data_for_pair_def abs_divide)

theorem fetch_data_for_pair_spread_witness:
  "\<exists>sig. fetch_data_for_pair example_env ''BTCUSDT'' ''BTC_USDT'' (initial_world 1000 []) =
           Returns (Some sig)
             \<lparr>clock = 1000 + 1 / 20, last_request_time = 1000 + 1 / 20, sem_value = 10,
              signals_table = [], subscribers_table = [],
              trace = [SpotRequest ''BTCUSDT'' 0, Sleep (1 / 20),
                       FuturesRequest ''BTC_USDT'' 0]\<rparr> \<and>
         spread_percent sig = 8 \<and> bid_ask sig = ''Buy Spot / Sell Futures''"
  using fetch_data_for_pair_spread [OF example_fetch_spot example_fetch_futures]
  by auto

section \<open>Persisting a scanned signal (C1)\<close>

lemma example_fetch_data:
  "fetch_data_for_pair example_env ''BTCUSDT'' ''BTC_USDT'' (initial_world 1000 []) =
     Returns (Some example_signal)
       \<lparr>clock = 1000 + 1 / 20, last_request_time = 1000 + 1 / 20, sem_value = 10,
        signals_table = [], subscribers_table = [],
        trace = [SpotRequest ''BTCUSDT'' 0, Sleep (1 / 20), FuturesRequest ''BTC_USDT'' 0]\<rparr>"
proof -
  have ts: "gmtime_str example_env = ''2025-01-01 00:00:00''"
    by (simp add: example_env_def)
  show ?thesis
    by (simp add: fetch_data_for_pair_def example_fetch_spot example_fetch_futures
        example_signal_def ts)
qed

lemma fetch_data_for_pair_frame:
  assumes "fetch_data_for_pair e spot_sym fut_sym w = Returns r w'"
  shows "sem_value w' = sem_value w \<and> signals_table w' = signals_table w \<and>
         subscribers_table w' = subscribers_table w \<and> 0 < sem_value w"
proof (cases "sem_value w = 0")
  case True
  then have "fetch_data_for_pair e spot_sym fut_sym w = Suspended"
    by (simp add: fetch_data_for_pair_def fetch_spot_price_def sem_acquire_def)
  with assms show ?thesis by simp
next
  case False
  then have "0 < sem_value w" by simp
  from fetch_data_for_pair_returns [OF this, of e spot_sym fut_sym] assms this
  show ?thesis by auto
qed

text \<open>
  C1 asks that a signal at or above the logging threshold be persisted. The scan loop does
  call \<open>save_signal\<close>, but with the scanner's own dict, whose keys are \<open>spot_symbol\<close> and
  \<open>volume_spot\<close> where \<open>save_signal\<close> reads \<open>symbol\<close> and \<open>volume\<close>: the lookup raises
  \<open>KeyError\<close>, \<open>save_signal\<close> returns \<open>False\<close>, and no row is written. For every signal
  that \<open>fetch_data_for_pair\<close> yields at or above the threshold, the save fails and
  \<open>process_and_notify\<close> leaves the table \<open>arbitrage_signals\<close> as it was.
\<close>

theorem scanned_signal_is_not_persisted:
  assumes "fetch_data_for_pair e spot_sym fut_sym w = Returns (Some sig) w1"
    and "spread_percent sig \<ge> THRESHOLD_PERCENT"
  shows "save_signal e (DictArg (signal_dict sig)) w1 = Returns False w1 \<and>
         (\<exists>w'. process_and_notify e [(spot_sym, fut_sym)] f w = Returns () w' \<and>
               signals_table w' = signals_table w)"
proof -
  from fetch_data_for_pair_frame [OF assms(1)]
  have pos: "0 < sem_value w" by simp
  from process_and_notify_returns [OF pos, of e "[(spot_sym, fut_sym)]" f]
  show ?thesis by (auto simp: save_signal_scanner_dict)
qed

theorem scanned_signal_is_not_persisted_witness:
  "spread_percent example_signal \<ge> THRESHOLD_PERCENT \<and>
   save_signal example_env (DictArg (signal_dict example_signal))
     \<lparr>clock = 1000 + 1 / 20, last_request_time = 1000 + 1 / 20, sem_value = 10,
        signals_table = [], subscribers_table = [],
        trace = [SpotRequest ''BTCUSDT'' 0, Sleep (1 / 20), FuturesRequest ''BTC_USDT'' 0]\<rparr>
   = Returns False
     \<lparr>clock = 1000 + 1 / 20, last_request_time = 1000 + 1 / 20, sem_value = 10,
        signals_table = [], subscribers_table = [],
        trace = [SpotRequest ''BTCUSDT'' 0, Sleep (1 / 20), FuturesRequest ''BTC_USDT'' 0]\<rparr> \<and>
   (\<exists>w'. process_and_notify example_env [(''BTCUSDT'', ''BTC_USDT'')] None (initial_world 1000 [])
           = Returns () w' \<and> signals_table w' = [])"
proof -
  have h: "spread_percent example_signal \<ge> THRESHOLD_PERCENT"
    by (simp add: example_signal_def THRESHOLD_PERCENT_def)
  from scanned_signal_is_not_persisted [OF example_fetch_data h, of None] h
  show ?thesis by (simp add: initial_world_def)
qed

section \<open>save\_signal never raises (C10)\<close>







lemma example_save_ok:
  "save_signal example_env
     (ArbitrageSignal (PStr ''BTCUSDT'') (PFloat 50000) (PFloat 50250) (PFloat (1 / 2)) (PFloat 1500000))
     (initial_world 0 []) =
   Returns True ((initial_world 0 [])\<lparr>signals_table :=
     [\<lparr>row_symbol = PStr ''BTCUSDT'', row_spot_price = PFloat 50000,
       row_futures_price = PFloat 50250, row_spread_percent = PFloat (1 / 2),
       row_volume = PFloat 1500000\<rparr>]\<rparr>)"
  by (simp add: save_signal_def insert_signal_def example_env_def initial_world_def)

section \<open>A failed derivative listing (C6)\<close>

lemma get_futures_symbols_failed:
  "\<not> has_symbol_list (listing_http e) \<Longrightarrow> get_futures_symbols e = []"
  by (cases "listing_http e" rule: has_symbol_list.cases)
     (auto simp: get_futures_symbols_def get_futures_symbols_try_def split: json.splits)

text \<open>
  C6. When the derivative-listing request fails (transport error, undecodable body) or its
  answer carries no symbol list (not an object, or no list under \<open>data\<close>),
  \<open>get_futures_symbols\<close> catches whatever was raised and returns \<open>[]\<close>, and
  \<open>get_top_symbol_pairs\<close> returns the empty pair list; nothing reaches the caller as an
  exception.
\<close>

theorem listing_failure_gives_no_pairs:
  assumes "\<not> has_symbol_list (listing_http e)"
  shows "get_futures_symbols e = [] \<and> get_top_symbol_pairs e limit = []"
  using get_futures_symbols_failed [OF assms]
  by (simp add: get_top_symbol_pairs_def)

theorem listing_failure_gives_no_pairs_witness:
  "get_top_symbol_pairs (example_env\<lparr>listing_http := HttpFailed\<rparr>) 100 = [] \<and>
   get_top_symbol_pairs
     (example_env\<lparr>listing_http := HttpJson (JObj [(''code'', JNum 500)])\<rparr>) 100 = []"
  using listing_failure_gives_no_pairs [of "example_env\<lparr>listing_http := HttpFailed\<rparr>" 100]
    listing_failure_gives_no_pairs
      [of "example_env\<lparr>listing_http := HttpJson (JObj [(''code'', JNum 500)])\<rparr>" 100]
  by (simp add: dict_get_def)

section \<open>Pair matching keeps the ranking order (C5)\<close>

text \<open>
  While fewer than \<open>limit\<close> pairs are collected, the loop appends the matches of the
  remaining symbols in their order until the budget is used up.
\<close>

lemma match_pairs_take:
  assumes "int (length filtered) < limit"
  shows "match_pairs m limit spots filtered =
           filtered @
           take (nat limit - length filtered)
             (map (\<lambda>s. (s, the (m (normalize_symbol s ''spot''))))
                (filter (\<lambda>s. m (normalize_symbol s ''spot'') \<noteq> None) spots))"
  using assms
proof (induction spots arbitrary: filtered)
  case Nil
  then show ?case by simp
next
  case (Cons s spots)
  show ?case
  proof (cases "m (normalize_symbol s ''spot'')")
    case None
    with Cons show ?thesis by simp
  next
    case (Some f_sym)
    show ?thesis
    proof (cases "limit \<le> int (length filtered) + 1")
      case True
      with Cons.prems have "nat limit - length filtered = 1" by linarith
      with True Some show ?thesis by (simp add: Let_def)
    next
      case False
      then have lt: "int (length (filtered @ [(s, f_sym)])) < limit" by simp
      have step: "nat limit - length filtered = Suc (nat limit - length (filtered @ [(s, f_sym)]))"
        using False by simp
      from Cons.IH [OF lt] False Some show ?thesis
        by (simp add: Let_def step del: length_append)
    qed
  qed
qed

text \<open>
  C5. For a pair budget \<open>limit \<ge> 0\<close>: the spot symbols of the emitted pairs are the first
  \<open>limit\<close> symbols, in ranking order, among the ranked symbols that do not contain
  \<open>TRUMP\<close> and whose canonical form is a key of the futures map; each is paired with the
  futures symbol stored under that key; and no more than \<open>limit\<close> pairs are emitted.
\<close>

theorem get_top_symbol_pairs_order:
  assumes "0 \<le> limit"
  shows "let m = futures_norm_map (get_futures_symbols e) Map.empty;
             eligible = filter (\<lambda>s. \<not> str_contains ''TRUMP'' s \<and>
                                      m (normalize_symbol s ''spot'') \<noteq> None)
                          (get_top_symbols e (limit * 3));
             emitted = get_top_symbol_pairs e limit
         in map fst emitted = take (nat limit) eligible \<and>
            map snd emitted =
              map (\<lambda>s. the (m (normalize_symbol s ''spot''))) (take (nat limit) eligible) \<and>
            int (length emitted) \<le> limit"
proof (cases "get_futures_symbols e = []")
  case True
  then show ?thesis
    using assms by (simp add: get_top_symbol_pairs_def Let_def)
next
  case nonempty: False
  show ?thesis
  proof (cases "limit = 0")
    case True
    then show ?thesis
      by (simp add: get_top_symbol_pairs_def Let_def get_top_symbols_def py_prefix_def
          split: option.splits)
  next
    case False
    with assms have pos: "int (length ([] :: (string \<times> string) list)) < limit" by simp
    show ?thesis
      using nonempty assms
      by (simp add: get_top_symbol_pairs_def Let_def match_pairs_take [OF pos]
          take_map filter_filter conj_commute o_def)
  qed
qed

theorem get_top_symbol_pairs_order_witness:
  "get_top_symbol_pairs example_env 100 =
     [(''BTCUSDT'', ''BTC_USDT''), (''ETHUSDT'', ''ETH_USDT'')] \<and>
   map fst (get_top_symbol_pairs example_env 1) = [''BTCUSDT'']"
proof -
  have fs: "get_futures_symbols example_env = [JStr ''BTC_USDT'', JStr ''ETH_USDT'']"
    by (simp add: get_futures_symbols_def get_futures_symbols_try_def example_env_def
        dict_get_def List.map_filter_def py_or_def)
  have n1: "normalize_symbol ''BTC_USDT'' ''futures'' = ''BTC''"
    and n2: "normalize_symbol ''ETH_USDT'' ''futures'' = ''ETH''"
    and n3: "normalize_symbol ''BTCUSDT'' ''spot'' = ''BTC''"
    and n4: "normalize_symbol ''XRPUSDT'' ''spot'' = ''XRP''"
    and n5: "normalize_symbol ''ETHUSDT'' ''spot'' = ''ETH''"
    by (simp_all add: normalize_symbol_def upper_def upper_char_def futures_suffixes_def)
  have t1: "get_top_symbols example_env 300 = [''BTCUSDT'', ''XRPUSDT'', ''ETHUSDT'']"
    and t2: "get_top_symbols example_env 3 = [''BTCUSDT'', ''XRPUSDT'', ''ETHUSDT'']"
    by (simp_all add: get_top_symbols_def example_env_def py_prefix_def)
  have a: "map fst (get_top_symbol_pairs example_env 100) = [''BTCUSDT'', ''ETHUSDT'']"
    and b: "map snd (get_top_symbol_pairs example_env 100) = [''BTC_USDT'', ''ETH_USDT'']"
    using get_top_symbol_pairs_order [of 100 example_env]
    by (simp_all add: Let_def fs n1 n2 n3 n4 n5 t1)
  have c: "map fst (get_top_symbol_pairs example_env 1) = [''BTCUSDT'']"
    using get_top_symbol_pairs_order [of 1 example_env]
    by (simp add: Let_def fs n1 n2 n3 n4 n5 t2)
  from a b have "get_top_symbol_pairs example_env 100 =
      [(''BTCUSDT'', ''BTC_USDT''), (''ETHUSDT'', ''ETH_USDT'')]"
    by (metis (no_types, lifting) zip_map_fst_snd zip_Cons_Cons zip_Nil)
  with c show ?thesis by simp
qed

section \<open>Notification fan-out (C7)\<close>









section \<open>Retries of the spot fetch (C8)\<close>

lemma rate_limit_sem_value:
  "rate_limit (w\<lparr>sem_value := n\<rparr>) = (rate_limit w)\<lparr>sem_value := n\<rparr>"
  by (simp add: rate_limit_def Let_def asyncio_sleep_def)

lemma rate_limit_requests:
  "filter is_spot_request (trace (rate_limit w)) = filter is_spot_request (trace w)"
  by (simp add: rate_limit_def Let_def)

lemma spot_attempts_three:
  "spot_attempts e symbol [0, 1, 2] w =
     (case spot_attempt e symbol 0 of
        Inr r \<Rightarrow> (r, w\<lparr>trace := trace w @ [SpotRequest symbol 0]\<rparr>)
      | Inl exc0 \<Rightarrow>
     (case spot_attempt e symbol 1 of
        Inr r \<Rightarrow>
          (r, w\<lparr>clock := clock w + 3 / 2,
                 trace := trace w @ [SpotRequest symbol 0, Sleep (3 / 2), SpotRequest symbol 1]\<rparr>)
      | Inl exc1 \<Rightarrow>
     (case spot_attempt e symbol 2 of
        Inr r \<Rightarrow>
          (r, w\<lparr>clock := clock w + 3 / 2 + 3,
                 trace := trace w @ [SpotRequest symbol 0, Sleep (3 / 2), SpotRequest symbol 1,
                                     Sleep 3, SpotRequest symbol 2]\<rparr>)
      | Inl exc2 \<Rightarrow>
          ((0, 0), w\<lparr>clock := clock w + 3 / 2 + 3 + 9 / 2,
                      trace := trace w @ [SpotRequest symbol 0, Sleep (3 / 2), SpotRequest symbol 1,
                                          Sleep 3, SpotRequest symbol 2, Sleep (9 / 2)]\<rparr>))))"
  by (simp add: Let_def asyncio_sleep_def split: sum.splits)

text \<open>
  C8. The spot fetch never raises. Given a free semaphore slot it returns, after the
  rate-limit wait, having made at most three requests: it stops at the first attempt that
  succeeds, sleeps \<open>1.5\<close>, \<open>3\<close> and \<open>4.5\<close> seconds after a failed first, second and third
  attempt, and when all three fail it returns the sentinel \<open>(0, 0)\<close>.
\<close>

theorem fetch_spot_price_retries:
  "(\<forall>exc w'. fetch_spot_price e symbol 3 w \<noteq> Raises exc w') \<and>
   (0 < sem_value w \<longrightarrow>
     (\<exists>r w'. fetch_spot_price e symbol 3 w = Returns r w' \<and>
        length (filter is_spot_request (trace w')) \<le> length (filter is_spot_request (trace w)) + 3 \<and>
        (\<forall>x. spot_attempt e symbol 0 = Inr x \<longrightarrow>
           r = x \<and> trace w' = trace (rate_limit w) @ [SpotRequest symbol 0]) \<and>
        (\<forall>x. isl (spot_attempt e symbol 0) \<and> spot_attempt e symbol 1 = Inr x \<longrightarrow>
           r = x \<and>
           trace w' = trace (rate_limit w) @
             [SpotRequest symbol 0, Sleep (3 / 2), SpotRequest symbol 1]) \<and>
        (\<forall>x. isl (spot_attempt e symbol 0) \<and> isl (spot_attempt e symbol 1) \<and>
             spot_attempt e symbol 2 = Inr x \<longrightarrow>
           r = x \<and>
           trace w' = trace (rate_limit w) @
             [SpotRequest symbol 0, Sleep (3 / 2), SpotRequest symbol 1, Sleep 3,
              SpotRequest symbol 2]) \<and>
        (isl (spot_attempt e symbol 0) \<and> isl (spot_attempt e symbol 1) \<and>
         isl (spot_attempt e symbol 2) \<longrightarrow>
           r = (0, 0) \<and>
           trace w' = trace (rate_limit w) @
             [SpotRequest symbol 0, Sleep (3 / 2), SpotRequest symbol 1, Sleep 3,
              SpotRequest symbol 2, Sleep (9 / 2)])))"
proof
  show "\<forall>exc w'. fetch_spot_price e symbol 3 w \<noteq> Raises exc w'"
    by (simp add: fetch_spot_price_def sem_acquire_def split: prod.splits)
next
  show "0 < sem_value w \<longrightarrow>
     (\<exists>r w'. fetch_spot_price e symbol 3 w = Returns r w' \<and>
        length (filter is_spot_request (trace w')) \<le> length (filter is_spot_request (trace w)) + 3 \<and>
        (\<forall>x. spot_attempt e symbol 0 = Inr x \<longrightarrow>
           r = x \<and> trace w' = trace (rate_limit w) @ [SpotRequest symbol 0]) \<and>
        (\<forall>x. isl (spot_attempt e symbol 0) \<and> spot_attempt e symbol 1 = Inr x \<longrightarrow>
           r = x \<and>
           trace w' = trace (rate_limit w) @
             [SpotRequest symbol 0, Sleep (3 / 2), SpotRequest symbol 1]) \<and>
        (\<forall>x. isl (spot_attempt e symbol 0) \<and> isl (spot_attempt e symbol 1) \<and>
             spot_attempt e symbol 2 = Inr x \<longrightarrow>
           r = x \<and>
           trace w' = trace (rate_limit w) @
             [SpotRequest symbol 0, Sleep (3 / 2), SpotRequest symbol 1, Sleep 3,
              SpotRequest symbol 2]) \<and>
        (isl (spot_attempt e symbol 0) \<and> isl (spot_attempt e symbol 1) \<and>
         isl (spot_attempt e symbol 2) \<longrightarrow>
           r = (0, 0) \<and>
           trace w' = trace (rate_limit w) @
             [SpotRequest symbol 0, Sleep (3 / 2), SpotRequest symbol 1, Sleep 3,
              SpotRequest symbol 2, Sleep (9 / 2)]))"
    by (cases "spot_attempt e symbol 0"; cases "spot_attempt e symbol 1";
        cases "spot_attempt e symbol 2")
       (simp_all add: fetch_spot_price_def sem_acquire_def sem_release_def upt_0_3
          spot_attempts_three rate_limit_sem_value rate_limit_requests)
qed

theorem fetch_spot_price_retries_witness:
  "\<exists>w'. fetch_spot_price (example_env\<lparr>spot_http := (\<lambda>symbol attempt. HttpFailed)\<rparr>)
           ''BTCUSDT'' 3 (initial_world 1000 []) = Returns (0, 0) w' \<and>
        trace w' = [SpotRequest ''BTCUSDT'' 0, Sleep (3 / 2), SpotRequest ''BTCUSDT'' 1, Sleep 3,
                    SpotRequest ''BTCUSDT'' 2, Sleep (9 / 2)]"
proof -
  let ?e = "example_env\<lparr>spot_http := (\<lambda>symbol attempt. HttpFailed)\<rparr>"
  have f: "\<And>a. spot_attempt ?e ''BTCUSDT'' a = Inl TransportError"
    by (simp add: spot_attempt_def)
  have t: "trace (rate_limit (initial_world 1000 [])) = []"
    by (simp add: rate_limit_def Let_def initial_world_def min_interval_def API_RATE_LIMIT_def)
  have s: "0 < sem_value (initial_world 1000 [])"
    by (simp add: initial_world_def API_MAX_CONCURRENT_REQUESTS_def)
  from fetch_spot_price_retries [of ?e "''BTCUSDT''" "initial_world 1000 []"] s
  show ?thesis
    by (auto simp: f t)
qed

section \<open>One rate limiter for both upstreams (C9)\<close>






section \<open>Tier sleeps of the scan loop (C4)\<close>

text \<open>
  C4, as the code has it. Each tier's sleep stands inside the \<open>if\<close> that guards the tier.
  Given a free semaphore slot an iteration returns, and: with an empty pair set it makes no
  sleep at all, the clock does not move, and the only thing it has done is the pair
  refresh; with a non-empty fast tier the fast interval is slept right after the tier's
  processing; and with a non-empty slow tier the slow interval is slept right after the
  slow tier's processing.
\<close>

theorem main_loop_iteration_sleeps:
  assumes "0 < sem_value w"
  shows "\<exists>ls' w'. main_loop_iteration e f ls w = Returns ls' w' \<and>
     (let refresh = (clock w - last_pairs_update ls > PAIRS_UPDATE_INTERVAL \<or> pairs ls = []);
          w1 = (if refresh then w\<lparr>trace := trace w @ [RefreshPairs]\<rparr> else w)
      in ls' = (if refresh
                then \<lparr>last_pairs_update = clock w,
                      pairs = get_top_symbol_pairs e TOP_VOLUME_LIMIT\<rparr>
                else ls) \<and>
         (pairs ls' = [] \<longrightarrow> clock w' = clock w \<and> trace w' = trace w @ [RefreshPairs]) \<and>
         (pairs ls' \<noteq> [] \<and> length (pairs ls') \<le> 50 \<longrightarrow>
            (\<exists>wf. process_and_notify e (pairs ls') f w1 = Returns () wf \<and>
                  w' = asyncio_sleep CHECK_INTERVAL_FAST wf)) \<and>
         (50 < length (pairs ls') \<longrightarrow>
            (\<exists>wf ws. process_and_notify e (take 50 (pairs ls')) f w1 = Returns () wf \<and>
                  process_and_notify e (drop 50 (pairs ls')) f
                    (asyncio_sleep CHECK_INTERVAL_FAST wf) = Returns () ws \<and>
                  w' = asyncio_sleep CHECK_INTERVAL_SLOW ws)))"
proof -
  define refresh where
    "refresh = (clock w - last_pairs_update ls > PAIRS_UPDATE_INTERVAL \<or> pairs ls = [])"
  define w1 where "w1 = (if refresh then w\<lparr>trace := trace w @ [RefreshPairs]\<rparr> else w)"
  define ls1 where
    "ls1 = (if refresh
            then \<lparr>last_pairs_update = clock w, pairs = get_top_symbol_pairs e TOP_VOLUME_LIMIT\<rparr>
            else ls)"
  have pos1: "0 < sem_value w1"
    using assms by (simp add: w1_def)
  have empty: "refresh" if "pairs ls1 = []"
    using that by (auto simp: ls1_def refresh_def split: if_splits)
  obtain wf where fast: "process_and_notify e (take 50 (pairs ls1)) f w1 = Returns () wf"
    and posf: "sem_value wf = sem_value w1"
    using process_and_notify_returns [OF pos1] by blast
  have "0 < sem_value (asyncio_sleep CHECK_INTERVAL_FAST wf)"
    using pos1 posf by simp
  then obtain ws where slow:
    "process_and_notify e (drop 50 (pairs ls1)) f (asyncio_sleep CHECK_INTERVAL_FAST wf) =
       Returns () ws"
    using process_and_notify_returns by blast
  define w' where
    "w' = (if pairs ls1 = [] then w1
           else if drop 50 (pairs ls1) = [] then asyncio_sleep CHECK_INTERVAL_FAST wf
           else asyncio_sleep CHECK_INTERVAL_SLOW ws)"
  have run: "main_loop_iteration e f ls w = Returns ls1 w'"
    using fast slow
    by (auto simp: main_loop_iteration_def Let_def refresh_def [symmetric] w1_def [symmetric]
        ls1_def [symmetric] w'_def)
  have c1: "clock w' = clock w \<and> trace w' = trace w @ [RefreshPairs]" if "pairs ls1 = []"
    using that empty [OF that] by (simp add: w'_def w1_def)
  have c2: "\<exists>wf. process_and_notify e (pairs ls1) f w1 = Returns () wf \<and>
                 w' = asyncio_sleep CHECK_INTERVAL_FAST wf"
    if "pairs ls1 \<noteq> [] \<and> length (pairs ls1) \<le> 50"
    using that fast by (simp add: w'_def)
  have c3: "\<exists>wf ws. process_and_notify e (take 50 (pairs ls1)) f w1 = Returns () wf \<and>
                  process_and_notify e (drop 50 (pairs ls1)) f
                    (asyncio_sleep CHECK_INTERVAL_FAST wf) = Returns () ws \<and>
                  w' = asyncio_sleep CHECK_INTERVAL_SLOW ws"
    if "50 < length (pairs ls1)"
  proof -
    from that have "pairs ls1 \<noteq> []" "drop 50 (pairs ls1) \<noteq> []" by auto
    then have "w' = asyncio_sleep CHECK_INTERVAL_SLOW ws" by (simp add: w'_def)
    with fast slow show ?thesis by blast
  qed
  have "main_loop_iteration e f ls w = Returns ls1 w' \<and>
     (let refresh = (clock w - last_pairs_update ls > PAIRS_UPDATE_INTERVAL \<or> pairs ls = []);
          w1 = (if refresh then w\<lparr>trace := trace w @ [RefreshPairs]\<rparr> else w)
      in ls1 = (if refresh
                then \<lparr>last_pairs_update = clock w,
                      pairs = get_top_symbol_pairs e TOP_VOLUME_LIMIT\<rparr>
                else ls) \<and>
         (pairs ls1 = [] \<longrightarrow> clock w' = clock w \<and> trace w' = trace w @ [RefreshPairs]) \<and>
         (pairs ls1 \<noteq> [] \<and> length (pairs ls1) \<le> 50 \<longrightarrow>
            (\<exists>wf. process_and_notify e (pairs ls1) f w1 = Returns () wf \<and>
                  w' = asyncio_sleep CHECK_INTERVAL_FAST wf)) \<and>
         (50 < length (pairs ls1) \<longrightarrow>
            (\<exists>wf ws. process_and_notify e (take 50 (pairs ls1)) f w1 = Returns () wf \<and>
                  process_and_notify e (drop 50 (pairs ls1)) f
                    (asyncio_sleep CHECK_INTERVAL_FAST wf) = Returns () ws \<and>
                  w' = asyncio_sleep CHECK_INTERVAL_SLOW ws)))"
    unfolding Let_def refresh_def [symmetric] w1_def [symmetric]
    using run c1 c2 c3 ls1_def by blast
  then show ?thesis by blast
qed

lemma example_pairs:
  "get_top_symbol_pairs example_env TOP_VOLUME_LIMIT =
     [(''BTCUSDT'', ''BTC_USDT''), (''ETHUSDT'', ''ETH_USDT'')]"
proof -
  have fs: "get_futures_symbols example_env = [JStr ''BTC_USDT'', JStr ''ETH_USDT'']"
    by (simp add: get_futures_symbols_def get_futures_symbols_try_def example_env_def
        dict_get_def List.map_filter_def py_or_def)
  have n: "normalize_symbol ''BTC_USDT'' ''futures'' = ''BTC''"
    "normalize_symbol ''ETH_USDT'' ''futures'' = ''ETH''"
    "normalize_symbol ''BTCUSDT'' ''spot'' = ''BTC''"
    "normalize_symbol ''XRPUSDT'' ''spot'' = ''XRP''"
    "normalize_symbol ''ETHUSDT'' ''spot'' = ''ETH''"
    by (simp_all add: normalize_symbol_def upper_def upper_char_def futures_suffixes_def)
  have t: "get_top_symbols example_env 300 = [''BTCUSDT'', ''XRPUSDT'', ''ETHUSDT'']"
    by (simp add: get_top_symbols_def example_env_def py_prefix_def)
  show ?thesis
    by (simp add: get_top_symbol_pairs_def TOP_VOLUME_LIMIT_def fs n t Let_def)
qed

theorem main_loop_iteration_sleeps_witness:
  "\<exists>ls' w' wf. main_loop_iteration example_env None initial_loop_state (initial_world 1000 []) =
            Returns ls' w' \<and>
          pairs ls' = [(''BTCUSDT'', ''BTC_USDT''), (''ETHUSDT'', ''ETH_USDT'')] \<and>
          w' = asyncio_sleep CHECK_INTERVAL_FAST wf"
proof -
  have s: "0 < sem_value (initial_world 1000 [])"
    by (simp add: initial_world_def API_MAX_CONCURRENT_REQUESTS_def)
  have l: "length [(''BTCUSDT'', ''BTC_USDT''), (''ETHUSDT'', ''ETH_USDT'')] \<le> (50 :: nat)"
    by simp
  from main_loop_iteration_sleeps [OF s, of example_env None initial_loop_state]
  obtain ls' w' where r:
      "main_loop_iteration example_env None initial_loop_state (initial_world 1000 []) =
         Returns ls' w'"
    and ls: "ls' = \<lparr>last_pairs_update = clock (initial_world 1000 []),
                     pairs = get_top_symbol_pairs example_env TOP_VOLUME_LIMIT\<rparr>"
    and fast: "pairs ls' \<noteq> [] \<and> length (pairs ls') \<le> 50 \<longrightarrow>
                 (\<exists>wf. w' = asyncio_sleep CHECK_INTERVAL_FAST wf)"
    unfolding Let_def initial_loop_state_def
    by (auto simp del: process_and_notify.simps)
  have p: "pairs ls' = [(''BTCUSDT'', ''BTC_USDT''), (''ETHUSDT'', ''ETH_USDT'')]"
    using ls by (simp add: example_pairs)
  with fast l obtain wf where "w' = asyncio_sleep CHECK_INTERVAL_FAST wf"
    by auto
  with r p show ?thesis by blast
qed

lemma example_iteration:
  "main_loop_iteration example_env None initial_loop_state (initial_world 1000 []) =
     Returns
       \<lparr>last_pairs_update = 1000,
        pairs = [(''BTCUSDT'', ''BTC_USDT''), (''ETHUSDT'', ''ETH_USDT'')]\<rparr>
       \<lparr>clock = 1000 + 3 / 20 + 30, last_request_time = 1000 + 3 / 20, sem_value = 10,
        signals_table = [], subscribers_table = [],
        trace = [RefreshPairs,
                 SpotRequest ''BTCUSDT'' 0, Sleep (1 / 20), FuturesRequest ''BTC_USDT'' 0,
                 Sleep (1 / 20), SpotRequest ''ETHUSDT'' 0,
                 Sleep (1 / 20), FuturesRequest ''ETH_USDT'' 0,
                 Sleep 30]\<rparr>"
proof -
  have env:
    "\<And>s a. spot_http example_env s a =
        HttpJson (JObj [(''lastPrice'', JStr ''100''), (''quoteVolume'', JNum 5000)])"
    "\<And>s a. futures_http example_env s a =
        HttpJson (JObj [(''data'', JObj [(''lastPrice'', JNum 108)])])"
    "parse_float example_env ''100'' = Some 100"
    "gmtime_str example_env = ''2025-01-01 00:00:00''"
    "db_up example_env"
    by (simp_all add: example_env_def)
  show ?thesis
    by (simp add: main_loop_iteration_def Let_def example_pairs initial_loop_state_def
        initial_world_def API_MAX_CONCURRENT_REQUESTS_def PAIRS_UPDATE_INTERVAL_def
        fetch_data_for_pair_def fetch_spot_price_def fetch_futures_price_def
        sem_acquire_def sem_release_def rate_limit_def min_interval_def API_RATE_LIMIT_def
        asyncio_sleep_def spot_attempt_def futures_attempt_try_def py_or_def dict_get_def
        upt_0_3 env THRESHOLD_PERCENT_def THRESHOLD_NOTIFY_PERCENT_def
        save_signal_scanner_dict notify_subscribers_def get_subscribers_def
        CHECK_INTERVAL_FAST_def)
qed

text \<open>
  The claim as stated fails. With two pairs the slow tier is empty and the iteration ends
  with the fast-interval sleep: no slow-interval sleep follows. When the listing request
  fails the pair set is empty, the iteration ends without any sleep, and the next one
  refreshes the pairs again at the same instant.
\<close>

theorem empty_tier_counterexample:
  "main_loop_iteration example_env None initial_loop_state (initial_world 1000 []) =
     Returns
       \<lparr>last_pairs_update = 1000,
        pairs = [(''BTCUSDT'', ''BTC_USDT''), (''ETHUSDT'', ''ETH_USDT'')]\<rparr>
       \<lparr>clock = 1000 + 3 / 20 + 30, last_request_time = 1000 + 3 / 20, sem_value = 10,
        signals_table = [], subscribers_table = [],
        trace = [RefreshPairs,
                 SpotRequest ''BTCUSDT'' 0, Sleep (1 / 20), FuturesRequest ''BTC_USDT'' 0,
                 Sleep (1 / 20), SpotRequest ''ETHUSDT'' 0,
                 Sleep (1 / 20), FuturesRequest ''ETH_USDT'' 0,
                 Sleep 30]\<rparr> \<and>
   main_loop_iterations 2 (example_env\<lparr>listing_http := HttpFailed\<rparr>) None initial_loop_state
     (initial_world 1000 []) =
   Returns \<lparr>last_pairs_update = 1000, pairs = []\<rparr>
     \<lparr>clock = 1000, last_request_time = 0, sem_value = 10, signals_table = [],
      subscribers_table = [], trace = [RefreshPairs, RefreshPairs]\<rparr>"
proof -
  have p: "get_top_symbol_pairs (example_env\<lparr>listing_http := HttpFailed\<rparr>) TOP_VOLUME_LIMIT = []"
    by (simp add: get_top_symbol_pairs_def get_futures_symbols_def get_futures_symbols_try_def)
  have two: "2 = Suc (Suc 0)"
    by simp
  have "main_loop_iterations 2 (example_env\<lparr>listing_http := HttpFailed\<rparr>) None
          initial_loop_state (initial_world 1000 []) =
        Returns \<lparr>last_pairs_update = 1000, pairs = []\<rparr>
          \<lparr>clock = 1000, last_request_time = 0, sem_value = 10, signals_table = [],
           subscribers_table = [], trace = [RefreshPairs, RefreshPairs]\<rparr>"
    unfolding two
    by (simp add: main_loop_iteration_def Let_def p initial_loop_state_def initial_world_def
        API_MAX_CONCURRENT_REQUESTS_def PAIRS_UPDATE_INTERVAL_def)
  with example_iteration show ?thesis
    by (rule conjI)
qed

end
